theory Spec2Isabelle
  imports Complex_Main
begin

section \<open>The tenant dashboard component (frontend/src/App.jsx)\<close>

text \<open>
  The component \<open>App\<close> keeps six pieces of React state and reacts to drag-and-drop, to the
  file picker and to three buttons. The state is a record; every handler is a function
  from the state before the event to the state after it. The two asynchronous handlers
  also talk to the server: the server's reply is an argument of the handler, and the
  requests and downloads the handler performs are returned beside the new state.
\<close>

subsection \<open>Data\<close>

text \<open>A browser \<open>File\<close>, as far as the component reads it: \<open>name\<close>, \<open>type\<close>, \<open>size\<close>.\<close>

record File =
  file_name :: string
  file_type :: string
  file_size :: nat

text \<open>
  The JSON body of a successful upload, as far as the component reads it. The field
  \<open>is_approved\<close> is optional: the response documented in the README carries no such
  field, and the component only tests it for truthiness (\<open>undefined\<close> counts as false).
\<close>

record upload_result =
  keycred_score :: rat
  max_rent_limit :: rat
  pages_parsed :: nat
  status :: string
  receipt_id :: nat
  is_approved :: "bool option"

text \<open>
  The \<open>useState\<close> cells of \<open>App\<close>, with \<open>null\<close> as \<open>None\<close>. The cell \<open>file\<close> is
  \<open>file_state\<close> here.
\<close>

record app_state =
  file_state :: "File option"
  dragging :: bool
  uploading :: bool
  result :: "upload_result option"
  error :: "string option"
  certLoading :: bool

definition initial_state :: app_state where
  "initial_state =
     \<lparr>file_state = None, dragging = False, uploading = False, result = None, error = None,
      certLoading = False\<rparr>"

text \<open>What a handler does to the outside world: a POST of the file, or a download.\<close>

type_synonym blob = "nat list"

datatype effect = Fetch string File | Download string blob

definition API_URL :: string where
  "API_URL = ''http://localhost:8000''"

subsection \<open>Drag and drop, file picker\<close>

definition onDragOver :: "app_state \<Rightarrow> app_state" where
  "onDragOver s = s\<lparr>dragging := True\<rparr>"

definition onDragLeave :: "app_state \<Rightarrow> app_state" where
  "onDragLeave s = s\<lparr>dragging := False\<rparr>"

text \<open>\<open>dropped\<close> is \<open>e.dataTransfer.files[0]\<close>: \<open>None\<close> when nothing file-like was dropped.\<close>

definition onDrop :: "File option \<Rightarrow> app_state \<Rightarrow> app_state" where
  "onDrop dropped s =
     (let s1 = s\<lparr>dragging := False\<rparr> in
      case dropped of
        Some f \<Rightarrow>
          if file_type f = ''application/pdf''
          then s1\<lparr>file_state := Some f, error := None\<rparr>
          else s1\<lparr>error := Some ''Please drop a valid PDF file.''\<rparr>
      | None \<Rightarrow> s1\<lparr>error := Some ''Please drop a valid PDF file.''\<rparr>)"

text \<open>\<open>chosen\<close> is \<open>e.target.files[0]\<close>: \<open>None\<close> when the picker was cancelled.\<close>

definition onFileChange :: "File option \<Rightarrow> app_state \<Rightarrow> app_state" where
  "onFileChange chosen s =
     (case chosen of
        Some f \<Rightarrow> s\<lparr>file_state := Some f, error := None\<rparr>
      | None \<Rightarrow> s)"

definition resetState :: "app_state \<Rightarrow> app_state" where
  "resetState s = s\<lparr>file_state := None, result := None, error := None\<rparr>"

subsection \<open>Upload\<close>

text \<open>
  How the upload request can end: \<open>fetch\<close> rejects (with the error's message), the
  response is not \<open>ok\<close> (with its status), the body parses to a result, or parsing the
  body throws (with the error's message).
\<close>

datatype upload_reply =
  UploadRejected string
| UploadNotOk nat
| UploadJson upload_result
| UploadBadJson string

fun digits :: "nat \<Rightarrow> string" where
  "digits n =
     (if n < 10 then [char_of (48 + n)]
      else digits (n div 10) @ [char_of (48 + n mod 10)])"

text \<open>\<open>err.message || 'Upload failed. Is the backend running?'\<close>\<close>

definition upload_error :: "string \<Rightarrow> string" where
  "upload_error message =
     (if message = [] then ''Upload failed. Is the backend running?'' else message)"

text \<open>The state while the request is awaited.\<close>

definition handleUpload_pending :: "app_state \<Rightarrow> app_state" where
  "handleUpload_pending s = s\<lparr>uploading := True, error := None, result := None\<rparr>"

text \<open>The \<open>try\<close>/\<open>catch\<close>/\<open>finally\<close> after the request has ended.\<close>

definition handleUpload_settle :: "upload_reply \<Rightarrow> app_state \<Rightarrow> app_state" where
  "handleUpload_settle reply s =
     (case reply of
        UploadJson data \<Rightarrow> s\<lparr>result := Some data\<rparr>
      | UploadNotOk code \<Rightarrow> s\<lparr>error := Some (upload_error (''Server error: '' @ digits code))\<rparr>
      | UploadRejected message \<Rightarrow> s\<lparr>error := Some (upload_error message)\<rparr>
      | UploadBadJson message \<Rightarrow> s\<lparr>error := Some (upload_error message)\<rparr>)
     \<lparr>uploading := False\<rparr>"

definition handleUpload :: "upload_reply \<Rightarrow> app_state \<Rightarrow> app_state \<times> effect list" where
  "handleUpload reply s =
     (case file_state s of
        None \<Rightarrow> (s, [])
      | Some f \<Rightarrow>
          (handleUpload_settle reply (handleUpload_pending s),
           [Fetch (API_URL @ ''/api/upload-receipt/1'') f]))"

subsection \<open>Certificate download\<close>

text \<open>
  How the certificate request can end: \<open>fetch\<close> rejects; the response is not \<open>ok\<close> and
  its JSON body has a \<open>detail\<close> (\<open>None\<close> when it is missing); the response is not \<open>ok\<close> and
  parsing its body throws; the response is \<open>ok\<close> and its body is read as a blob; or
  reading the blob throws.
\<close>

datatype certificate_reply =
  CertRejected string
| CertNotOk "string option"
| CertNotOkBadJson string
| CertBlob blob
| CertBlobFailed string

text \<open>\<open>err.detail || 'Certificate generation failed'\<close>\<close>

definition certificate_error :: "string option \<Rightarrow> string" where
  "certificate_error detail =
     (case detail of
        None \<Rightarrow> ''Certificate generation failed''
      | Some d \<Rightarrow> if d = [] then ''Certificate generation failed'' else d)"

definition handleCertificate_settle ::
  "certificate_reply \<Rightarrow> app_state \<Rightarrow> app_state \<times> effect list" where
  "handleCertificate_settle reply s =
     (case reply of
        CertBlob b \<Rightarrow> (s\<lparr>certLoading := False\<rparr>, [Download ''KeyCred_Certificate.pdf'' b])
      | CertNotOk detail \<Rightarrow>
          (s\<lparr>error := Some (certificate_error detail), certLoading := False\<rparr>, [])
      | CertNotOkBadJson message \<Rightarrow> (s\<lparr>error := Some message, certLoading := False\<rparr>, [])
      | CertRejected message \<Rightarrow> (s\<lparr>error := Some message, certLoading := False\<rparr>, [])
      | CertBlobFailed message \<Rightarrow> (s\<lparr>error := Some message, certLoading := False\<rparr>, []))"

definition handleCertificate ::
  "certificate_reply \<Rightarrow> app_state \<Rightarrow> app_state \<times> effect list" where
  "handleCertificate reply s =
     (case file_state s of
        None \<Rightarrow> (s, [])
      | Some f \<Rightarrow>
          (let (s1, done) = handleCertificate_settle reply (s\<lparr>certLoading := True\<rparr>)
           in (s1, Fetch (API_URL @ ''/api/certificate/1'') f # done)))"

subsection \<open>What is rendered\<close>

text \<open>The stroke colour of \<open>ScoreRing\<close>.\<close>

definition ScoreRing_color :: "rat \<Rightarrow> string" where
  "ScoreRing_color score =
     (if score \<ge> 750 then ''#34d399'' else if score \<ge> 600 then ''#fbbf24'' else ''#f87171'')"

definition scoreColor :: "app_state \<Rightarrow> string" where
  "scoreColor s =
     (case result s of
        Some r \<Rightarrow>
          if keycred_score r \<ge> 750 then ''#34d399''
          else if keycred_score r \<ge> 600 then ''#fbbf24''
          else ''#f87171''
      | None \<Rightarrow> ''#6366f1'')"

text \<open>The text of the rating badge, without the pictograph each label starts with.\<close>

definition rating_badge :: "upload_result \<Rightarrow> string" where
  "rating_badge r =
     (if keycred_score r \<ge> 750 then ''Excellent Creditworthiness''
      else if keycred_score r \<ge> 600 then ''Good Creditworthiness''
      else ''Needs Improvement'')"

text \<open>\<open>disabled={!file || uploading}\<close> of the button \<open>upload-btn\<close>.\<close>

definition upload_btn_disabled :: "app_state \<Rightarrow> bool" where
  "upload_btn_disabled s = (file_state s = None \<or> uploading s)"

text \<open>
  The score card is rendered when \<open>result\<close> is set. Inside it, the certificate button
  is rendered when \<open>result.is_approved\<close> is truthy, and the notice
  ``Score must be \<open>\<ge>\<close> 650 for certificate eligibility'' when it is not.
\<close>

definition truthy :: "bool option \<Rightarrow> bool" where
  "truthy v = (case v of Some b \<Rightarrow> b | None \<Rightarrow> False)"

definition score_card_rendered :: "app_state \<Rightarrow> bool" where
  "score_card_rendered s = (result s \<noteq> None)"

definition certificate_button_rendered :: "app_state \<Rightarrow> bool" where
  "certificate_button_rendered s =
     (case result s of None \<Rightarrow> False | Some r \<Rightarrow> truthy (is_approved r))"

definition certificate_button_disabled :: "app_state \<Rightarrow> bool" where
  "certificate_button_disabled s = certLoading s"

definition threshold_notice_rendered :: "app_state \<Rightarrow> bool" where
  "threshold_notice_rendered s =
     (case result s of None \<Rightarrow> False | Some r \<Rightarrow> \<not> truthy (is_approved r))"

subsection \<open>Events\<close>

text \<open>
  What the user can do to the page. A click reaches its handler only through a button
  that is rendered and not disabled; \<open>handleCertificate\<close> is bound to the certificate
  button alone, \<open>handleUpload\<close> to \<open>upload-btn\<close>, \<open>resetState\<close> to the button of the
  upload card that is rendered when \<open>result\<close> is set.
\<close>

datatype ui_event =
  DragOver
| DragLeave
| Drop "File option"
| FileChange "File option"
| ClickUpload upload_reply
| ClickReset
| ClickCertificate certificate_reply

fun dispatch :: "ui_event \<Rightarrow> app_state \<Rightarrow> app_state \<times> effect list" where
  "dispatch DragOver s = (onDragOver s, [])"
| "dispatch DragLeave s = (onDragLeave s, [])"
| "dispatch (Drop dropped) s = (onDrop dropped s, [])"
| "dispatch (FileChange chosen) s = (onFileChange chosen s, [])"
| "dispatch (ClickUpload reply) s =
     (if upload_btn_disabled s then (s, []) else handleUpload reply s)"
| "dispatch ClickReset s = (if score_card_rendered s then (resetState s, []) else (s, []))"
| "dispatch (ClickCertificate reply) s =
     (if certificate_button_rendered s \<and> \<not> certificate_button_disabled s
      then handleCertificate reply s else (s, []))"

fun run :: "ui_event list \<Rightarrow> app_state \<Rightarrow> app_state \<times> effect list" where
  "run [] s = (s, [])"
| "run (e # es) s =
     (let (s1, out1) = dispatch e s; (s2, out2) = run es s1 in (s2, out1 @ out2))"

definition is_certificate_request :: "effect \<Rightarrow> bool" where
  "is_certificate_request x =
     (case x of Fetch url f \<Rightarrow> url = API_URL @ ''/api/certificate/1'' | Download n b \<Rightarrow> False)"

section \<open>The Receipt-to-Score pipeline\<close>

text \<open>
  The pipeline runs in the backend (\<open>backend/services.py\<close>, \<open>backend/main.py\<close>), which is
  not among the sources; the dashboard above is its caller. The stages below are written
  from the specification. Parsing a PDF, extracting features, the scoring rules with
  their baseline and the Rent-Limit Calculator are not fixed by the specification: they are the
  fields of \<open>stages\<close>, and every statement about the pipeline holds for all of them.
\<close>

type_synonym bytes = "nat list"

text \<open>
  Modelled from the spec: the backend's RawDocument (section 3), an opaque byte sequence
  plus the declared media type. The media type is checked where the document is created, before
  the Document Extractor is reached, and no stage below reads it.
\<close>

record RawDocument =
  doc_bytes :: bytes
  media_type :: string

text \<open>
  Modelled from the spec: the backend's ExtractedPage (section 3), a 1-based index, the
  raw text and the tabular rows of cells.
\<close>

record ExtractedPage =
  page_index :: nat
  page_text :: string
  page_rows :: "string list list"

text \<open>
  Modelled from the spec: the one error of the backend's core (sections 4.1 and 7) and
  the two values of a record's status (section 3).
\<close>

datatype extractor_error = UnreadableDocument

datatype decision_status = completed | failed

text \<open>Modelled from the spec: the backend's DecisionRecord (section 3).\<close>

record ('t, 'r) DecisionRecord =
  dr_tenant_id :: 't
  dr_receipt_id :: 'r
  dr_score :: int
  dr_max_rent_limit :: rat
  dr_pages_parsed :: nat
  dr_is_approved :: bool
  dr_status :: decision_status

text \<open>
  Modelled from the spec: the parts of the backend that sections 4 and 9 leave to the
  implementer, taken as parameters. These are the PDF parser (\<open>None\<close> when the bytes have a corrupt header or
  no accessible text layer), the Feature Extractor, the baseline, the named contribution
  rules and the Rent-Limit Calculator (section 4.4).
\<close>

record 'f stages =
  parse_pdf :: "bytes \<Rightarrow> ExtractedPage list option"
  extract_features :: "ExtractedPage list \<Rightarrow> 'f"
  baseline :: int
  rules :: "(string \<times> ('f \<Rightarrow> int)) list"
  rent_limit :: "int \<Rightarrow> 'f \<Rightarrow> rat"

text \<open>
  Modelled from the spec: the backend's Document Extractor (section 4.1). It yields the
  pages in order, or fails with \<open>UnreadableDocument\<close> when the byte stream is not a parseable PDF;
  a document of zero pages counts as not parseable.
\<close>

definition DocumentExtractor ::
  "'f stages \<Rightarrow> RawDocument \<Rightarrow> extractor_error + ExtractedPage list" where
  "DocumentExtractor st doc =
     (case parse_pdf st (doc_bytes doc) of
        None \<Rightarrow> Inl UnreadableDocument
      | Some [] \<Rightarrow> Inl UnreadableDocument
      | Some (p # ps) \<Rightarrow> Inr (p # ps))"

text \<open>Modelled from the spec: the backend's clamp(x, lo, hi) of section 4.3.\<close>

definition clamp :: "int \<Rightarrow> int \<Rightarrow> int \<Rightarrow> int" where
  "clamp x lo hi = max lo (min hi x)"

text \<open>
  Modelled from the spec: the backend's Rule-Based Scorer (section 4.3). The breakdown
  maps each rule's name to its signed contribution; the final score is
  clamp(baseline + sum of contributions, 0, 1000).
\<close>

definition ScoreBreakdown :: "'f stages \<Rightarrow> 'f \<Rightarrow> (string \<times> int) list" where
  "ScoreBreakdown st feats = map (\<lambda>(name, rule). (name, rule feats)) (rules st)"

definition RuleBasedScorer :: "'f stages \<Rightarrow> 'f \<Rightarrow> int" where
  "RuleBasedScorer st feats =
     clamp (baseline st + sum_list (map snd (ScoreBreakdown st feats))) 0 1000"

text \<open>
  Modelled from the spec: the backend's Eligibility Gate (section 4.5) and its named
  threshold.
\<close>

definition APPROVAL_THRESHOLD :: int where
  "APPROVAL_THRESHOLD = 650"

definition EligibilityGate :: "decision_status \<Rightarrow> int \<Rightarrow> bool" where
  "EligibilityGate st_flag score = (st_flag = completed \<and> score \<ge> APPROVAL_THRESHOLD)"

text \<open>
  Modelled from the spec: the backend's Result Assembler with its failure semantics
  (section 4.6) and the control flow of section 2. When the Document Extractor fails, the record is
  the failed one and no later stage is consulted.
\<close>

definition pipeline ::
  "'f stages \<Rightarrow> RawDocument \<Rightarrow> 't \<Rightarrow> 'r \<Rightarrow> ('t, 'r) DecisionRecord" where
  "pipeline st doc tenant receipt =
     (case DocumentExtractor st doc of
        Inl UnreadableDocument \<Rightarrow>
          \<lparr>dr_tenant_id = tenant, dr_receipt_id = receipt, dr_score = 0,
           dr_max_rent_limit = 0, dr_pages_parsed = 0, dr_is_approved = False,
           dr_status = failed\<rparr>
      | Inr pages \<Rightarrow>
          (let feats = extract_features st pages;
               score = RuleBasedScorer st feats
           in \<lparr>dr_tenant_id = tenant, dr_receipt_id = receipt, dr_score = score,
               dr_max_rent_limit = rent_limit st score feats,
               dr_pages_parsed = length pages,
               dr_is_approved = EligibilityGate completed score,
               dr_status = completed\<rparr>))"

section \<open>Sample inputs\<close>

definition txt_file :: File where
  "txt_file = \<lparr>file_name = ''notes.txt'', file_type = ''text/plain'', file_size = 12\<rparr>"

definition pdf_file :: File where
  "pdf_file =
     \<lparr>file_name = ''receipt.pdf'', file_type = ''application/pdf'', file_size = 2048\<rparr>"

text \<open>The response of the README, approved; a result of 620 points; one of 540.\<close>

definition approved_result :: upload_result where
  "approved_result =
     \<lparr>keycred_score = 802, max_rent_limit = 26700, pages_parsed = 1,
      status = ''completed'', receipt_id = 1, is_approved = Some True\<rparr>"

definition good_unapproved_result :: upload_result where
  "good_unapproved_result =
     \<lparr>keycred_score = 620, max_rent_limit = 9000, pages_parsed = 2,
      status = ''completed'', receipt_id = 2, is_approved = Some False\<rparr>"

definition low_result :: upload_result where
  "low_result =
     \<lparr>keycred_score = 540, max_rent_limit = 0, pages_parsed = 1,
      status = ''completed'', receipt_id = 3, is_approved = None\<rparr>"

text \<open>The page after \<open>pdf_file\<close> was uploaded and the server answered with \<open>r\<close>.\<close>

definition showing :: "upload_result \<Rightarrow> app_state" where
  "showing r = initial_state\<lparr>file_state := Some pdf_file, result := Some r\<rparr>"

text \<open>
  Stages for running the pipeline on an example: the parser accepts the bytes that start
  with \<open>%PDF\<close> and yields one page, the features are the number of pages, and one rule
  adds 200 points per page.
\<close>

definition sample_stages :: "nat stages" where
  "sample_stages =
     \<lparr>parse_pdf =
        (\<lambda>bs. if take 4 bs = [37, 80, 68, 70]
              then Some [\<lparr>page_index = 1, page_text = ''MAAS 42.000,00 TL'', page_rows = []\<rparr>]
              else None),
      extract_features = length,
      baseline = 500,
      rules = [(''pages'', \<lambda>n. 200 * int n)],
      rent_limit = (\<lambda>score n. of_int score * 10)\<rparr>"

definition corrupt_document :: RawDocument where
  "corrupt_document = \<lparr>doc_bytes = [0, 1, 2, 3], media_type = ''application/pdf''\<rparr>"

definition readable_document :: RawDocument where
  "readable_document =
     \<lparr>doc_bytes = [37, 80, 68, 70, 45, 49], media_type = ''application/pdf''\<rparr>"

section \<open>Properties of the dashboard\<close>

subsection \<open>Handlers, one by one\<close>

lemma onDrop_file_state:
  "file_state (onDrop dropped s) =
     (case dropped of
        Some f \<Rightarrow> if file_type f = ''application/pdf'' then Some f else file_state s
      | None \<Rightarrow> file_state s)"
  by (simp add: onDrop_def Let_def split: option.splits)

lemma onDrop_error:
  "error (onDrop dropped s) =
     (case dropped of
        Some f \<Rightarrow>
          if file_type f = ''application/pdf'' then None
          else Some ''Please drop a valid PDF file.''
      | None \<Rightarrow> Some ''Please drop a valid PDF file.'')"
  by (simp add: onDrop_def Let_def split: option.splits)

lemma handleUpload_result:
  "result (fst (handleUpload reply s)) =
     (case file_state s of
        None \<Rightarrow> result s
      | Some f \<Rightarrow> (case reply of UploadJson data \<Rightarrow> Some data | _ \<Rightarrow> None))"
  by (cases reply)
    (simp_all add: handleUpload_def handleUpload_settle_def handleUpload_pending_def
      split: option.splits)

lemma handleUpload_uploading:
  "file_state s = Some f \<Longrightarrow> \<not> uploading (fst (handleUpload reply s))"
  by (cases reply) (simp_all add: handleUpload_def handleUpload_settle_def)

lemma handleCertificate_result: "result (fst (handleCertificate reply s)) = result s"
  by (cases reply)
    (simp_all add: handleCertificate_def handleCertificate_settle_def split: option.splits)

lemma handleCertificate_sends:
  "file_state s = Some f \<Longrightarrow>
   Fetch (API_URL @ ''/api/certificate/1'') f \<in> set (snd (handleCertificate reply s))"
  by (simp add: handleCertificate_def split: prod.splits)

lemma upload_url_not_certificate:
  "\<not> is_certificate_request (Fetch (API_URL @ ''/api/upload-receipt/1'') f)"
  by (simp add: is_certificate_request_def)

lemma handleUpload_effects:
  "x \<in> set (snd (handleUpload reply s)) \<Longrightarrow> \<not> is_certificate_request x"
  by (auto simp: handleUpload_def upload_url_not_certificate split: option.splits)

subsection \<open>The certificate button\<close>

lemma certificate_button_rendered_iff:
  "certificate_button_rendered s \<longleftrightarrow> (\<exists>r. result s = Some r \<and> is_approved r = Some True)"
  by (auto simp: certificate_button_rendered_def truthy_def split: option.splits)

lemma threshold_notice_rendered_iff:
  "threshold_notice_rendered s \<longleftrightarrow> (\<exists>r. result s = Some r \<and> is_approved r \<noteq> Some True)"
  by (auto simp: threshold_notice_rendered_def truthy_def split: option.splits)

lemma dispatch_certificate_request:
  assumes "x \<in> set (snd (dispatch e s))" and "is_certificate_request x"
  shows "certificate_button_rendered s"
proof (cases e)
  case (ClickUpload reply)
  with assms show ?thesis
    by (auto dest: handleUpload_effects split: if_splits)
next
  case (ClickCertificate reply)
  with assms show ?thesis
    by (auto split: if_splits)
qed (use assms in \<open>auto split: if_splits\<close>)

text \<open>
  One event cannot bring the certificate button up unless it is an upload that the
  server answers with an approved result.
\<close>

lemma dispatch_keeps_unapproved:
  assumes "\<not> certificate_button_rendered s"
    and "\<forall>r. e = ClickUpload (UploadJson r) \<longrightarrow> \<not> truthy (is_approved r)"
  shows "\<not> certificate_button_rendered (fst (dispatch e s))"
proof (cases e)
  case (ClickUpload reply)
  show ?thesis
  proof (cases "upload_btn_disabled s")
    case True
    with ClickUpload assms(1) show ?thesis by simp
  next
    case False
    then obtain f where f: "file_state s = Some f"
      by (auto simp: upload_btn_disabled_def)
    have "result (fst (dispatch e s)) =
        (case reply of UploadJson data \<Rightarrow> Some data | _ \<Rightarrow> None)"
      using ClickUpload False f by (simp add: handleUpload_result)
    with assms(2) ClickUpload show ?thesis
      by (cases reply) (simp_all add: certificate_button_rendered_def)
  qed
next
  case (ClickCertificate reply)
  with assms(1) show ?thesis
    by (simp add: certificate_button_rendered_def handleCertificate_result)
next
  case ClickReset
  with assms(1) show ?thesis
    by (simp add: resetState_def certificate_button_rendered_def)
next
  case (Drop dropped)
  with assms(1) show ?thesis
    by (simp add: onDrop_def certificate_button_rendered_def Let_def split: option.splits)
next
  case (FileChange chosen)
  with assms(1) show ?thesis
    by (simp add: onFileChange_def certificate_button_rendered_def split: option.splits)
next
  case DragOver
  with assms(1) show ?thesis
    by (simp add: onDragOver_def certificate_button_rendered_def)
next
  case DragLeave
  with assms(1) show ?thesis
    by (simp add: onDragLeave_def certificate_button_rendered_def)
qed

text \<open>
  Over a whole session: as long as no upload is answered with an approved result, no
  sequence of events makes the page request a certificate.
\<close>

lemma run_no_certificate_request:
  assumes "\<not> certificate_button_rendered s"
    and "\<forall>r. ClickUpload (UploadJson r) \<in> set es \<longrightarrow> \<not> truthy (is_approved r)"
  shows "\<forall>x \<in> set (snd (run es s)). \<not> is_certificate_request x"
  using assms
proof (induction es arbitrary: s)
  case Nil
  then show ?case by simp
next
  case (Cons e es)
  have out1: "\<forall>x \<in> set (snd (dispatch e s)). \<not> is_certificate_request x"
    using dispatch_certificate_request [of _ e s] Cons.prems(1) by blast
  have "\<not> certificate_button_rendered (fst (dispatch e s))"
    using dispatch_keeps_unapproved [of s e] Cons.prems by simp
  moreover have "\<forall>r. ClickUpload (UploadJson r) \<in> set es \<longrightarrow> \<not> truthy (is_approved r)"
    using Cons.prems(2) by simp
  ultimately have
    "\<forall>x \<in> set (snd (run es (fst (dispatch e s)))). \<not> is_certificate_request x"
    by (rule Cons.IH)
  with out1 show ?case
    by (auto simp: split_beta Let_def)
qed

subsection \<open>Claims about the dashboard\<close>

text \<open>
  Claim C7, at the input where the code departs from it. The claim says that a file
  offered for upload, dropped or chosen in the file picker, enters the upload state only
  if its type is \<open>application/pdf\<close>, and is otherwise rejected with an error. \<open>onDrop\<close>
  does so (\<open>onDrop_file_state\<close>, \<open>onDrop_error\<close>); \<open>onFileChange\<close> does not look at the type:
  a text file chosen in the picker becomes the selected file and no error is set, while
  the same file dropped is refused.
\<close>

theorem onFileChange_accepts_non_pdf:
  "file_type txt_file \<noteq> ''application/pdf'' \<and>
   file_state (onFileChange (Some txt_file) initial_state) = Some txt_file \<and>
   error (onFileChange (Some txt_file) initial_state) = None \<and>
   file_state (onDrop (Some txt_file) initial_state) = None \<and>
   error (onDrop (Some txt_file) initial_state) = Some ''Please drop a valid PDF file.''"
  by (simp add: onFileChange_def onDrop_def initial_state_def txt_file_def)

text \<open>
  Claim C8: the certificate download is reachable if and only if the displayed result
  has \<open>is_approved = true\<close>. The certificate button is rendered exactly when a result is
  displayed whose \<open>is_approved\<close> is true, and the notice about the threshold of 650
  exactly when a result is displayed whose \<open>is_approved\<close> is not true. Whatever the event,
  the page sends a certificate request only from a state that displays an approved
  result; and from such a state, with a file selected and no certificate request in
  flight, a click on the button sends it.
\<close>

theorem certificate_only_when_approved:
  "(certificate_button_rendered s \<longleftrightarrow>
      (\<exists>r. result s = Some r \<and> is_approved r = Some True)) \<and>
   (threshold_notice_rendered s \<longleftrightarrow>
      (\<exists>r. result s = Some r \<and> is_approved r \<noteq> Some True)) \<and>
   ((\<exists>x \<in> set (snd (dispatch e s)). is_certificate_request x) \<longrightarrow>
      (\<exists>r. result s = Some r \<and> is_approved r = Some True)) \<and>
   ((\<exists>r. result s = Some r \<and> is_approved r = Some True) \<and> \<not> certLoading s \<and>
      file_state s = Some f \<longrightarrow>
      Fetch (API_URL @ ''/api/certificate/1'') f
        \<in> set (snd (dispatch (ClickCertificate reply) s)))"
proof (intro conjI impI)
  show "certificate_button_rendered s \<longleftrightarrow>
      (\<exists>r. result s = Some r \<and> is_approved r = Some True)"
    by (rule certificate_button_rendered_iff)
  show "threshold_notice_rendered s \<longleftrightarrow>
      (\<exists>r. result s = Some r \<and> is_approved r \<noteq> Some True)"
    by (rule threshold_notice_rendered_iff)
next
  assume "\<exists>x \<in> set (snd (dispatch e s)). is_certificate_request x"
  then have "certificate_button_rendered s"
    by (blast intro: dispatch_certificate_request)
  then show "\<exists>r. result s = Some r \<and> is_approved r = Some True"
    by (simp add: certificate_button_rendered_iff)
next
  assume a: "(\<exists>r. result s = Some r \<and> is_approved r = Some True) \<and> \<not> certLoading s \<and>
      file_state s = Some f"
  then have "certificate_button_rendered s"
    by (simp add: certificate_button_rendered_iff)
  with a show "Fetch (API_URL @ ''/api/certificate/1'') f
        \<in> set (snd (dispatch (ClickCertificate reply) s))"
    by (simp add: certificate_button_disabled_def handleCertificate_sends)
qed

theorem certificate_only_when_approved_witness:
  "result (showing approved_result) = Some approved_result \<and>
   is_approved approved_result = Some True \<and>
   \<not> certLoading (showing approved_result) \<and>
   file_state (showing approved_result) = Some pdf_file \<and>
   certificate_button_rendered (showing approved_result) \<and>
   \<not> threshold_notice_rendered (showing approved_result) \<and>
   Fetch (API_URL @ ''/api/certificate/1'') pdf_file
     \<in> set (snd (dispatch (ClickCertificate (CertBlob [37, 80, 68, 70]))
          (showing approved_result))) \<and>
   (\<exists>x \<in> set (snd (dispatch (ClickCertificate (CertBlob [37, 80, 68, 70]))
          (showing approved_result))). is_certificate_request x)"
proof -
  have s: "result (showing approved_result) = Some approved_result \<and>
      is_approved approved_result = Some True \<and>
      \<not> certLoading (showing approved_result) \<and>
      file_state (showing approved_result) = Some pdf_file"
    by (simp add: showing_def initial_state_def approved_result_def)
  have r: "Fetch (API_URL @ ''/api/certificate/1'') pdf_file
     \<in> set (snd (dispatch (ClickCertificate (CertBlob [37, 80, 68, 70]))
          (showing approved_result)))"
    using s certificate_only_when_approved
      [of "showing approved_result" "ClickCertificate (CertBlob [37, 80, 68, 70])" pdf_file
        "CertBlob [37, 80, 68, 70]"]
    by blast
  have q: "certificate_button_rendered (showing approved_result) \<and>
      \<not> threshold_notice_rendered (showing approved_result)"
    using s certificate_only_when_approved
      [of "showing approved_result" "ClickCertificate (CertBlob [37, 80, 68, 70])" pdf_file
        "CertBlob [37, 80, 68, 70]"]
    by auto
  have "is_certificate_request (Fetch (API_URL @ ''/api/certificate/1'') pdf_file)"
    by (simp add: is_certificate_request_def)
  with r s q show ?thesis by blast
qed

text \<open>
  Claim C9: with no file selected, \<open>handleUpload\<close> and \<open>handleCertificate\<close> send no
  request and leave the state as it was, whatever the server would have answered. The
  upload button is disabled exactly when no file is selected or an upload is in flight:
  a click on it then does nothing, and it is disabled in the state the component is in
  while the upload request is awaited.
\<close>

theorem no_file_no_request:
  "(file_state s = None \<longrightarrow>
      handleUpload ureply s = (s, []) \<and> handleCertificate creply s = (s, [])) \<and>
   (upload_btn_disabled s \<longleftrightarrow> file_state s = None \<or> uploading s) \<and>
   (upload_btn_disabled s \<longrightarrow> dispatch (ClickUpload ureply) s = (s, [])) \<and>
   uploading (handleUpload_pending s) \<and>
   upload_btn_disabled (handleUpload_pending s)"
  by (simp add: handleUpload_def handleCertificate_def upload_btn_disabled_def
      handleUpload_pending_def)

theorem no_file_no_request_witness:
  "file_state initial_state = None \<and>
   handleUpload (UploadNotOk 500) initial_state = (initial_state, []) \<and>
   handleCertificate (CertBlob [37, 80, 68, 70]) initial_state = (initial_state, []) \<and>
   upload_btn_disabled initial_state \<and>
   dispatch (ClickUpload (UploadNotOk 500)) initial_state = (initial_state, [])"
  using no_file_no_request [of initial_state "UploadNotOk 500" "CertBlob [37, 80, 68, 70]"]
  by (simp add: initial_state_def)

text \<open>
  Claim C10: the colour of the score ring, the colour \<open>scoreColor\<close> and the rating badge
  are functions of \<open>keycred_score\<close> with breakpoints at 750 and 600: green and
  ``Excellent'' from 750, amber and ``Good'' from 600 to below 750, red and
  ``Needs Improvement'' below 600. The breakpoints are not the approval threshold: a
  result with a score from 600 to below 650, approved only if its score is at least 650
  (the rule the notice states), is labelled ``Good Creditworthiness'' while the
  certificate button is missing and the notice about the threshold is shown.
\<close>

theorem rating_breakpoints:
  "(keycred_score r \<ge> 750 \<longrightarrow>
      ScoreRing_color (keycred_score r) = ''#34d399'' \<and>
      scoreColor (s\<lparr>result := Some r\<rparr>) = ''#34d399'' \<and>
      rating_badge r = ''Excellent Creditworthiness'') \<and>
   (600 \<le> keycred_score r \<and> keycred_score r < 750 \<longrightarrow>
      ScoreRing_color (keycred_score r) = ''#fbbf24'' \<and>
      scoreColor (s\<lparr>result := Some r\<rparr>) = ''#fbbf24'' \<and>
      rating_badge r = ''Good Creditworthiness'') \<and>
   (keycred_score r < 600 \<longrightarrow>
      ScoreRing_color (keycred_score r) = ''#f87171'' \<and>
      scoreColor (s\<lparr>result := Some r\<rparr>) = ''#f87171'' \<and>
      rating_badge r = ''Needs Improvement'') \<and>
   (600 \<le> keycred_score r \<and> keycred_score r < 650 \<and>
    (truthy (is_approved r) \<longrightarrow> keycred_score r \<ge> 650) \<longrightarrow>
      rating_badge r = ''Good Creditworthiness'' \<and>
      \<not> certificate_button_rendered (s\<lparr>result := Some r\<rparr>) \<and>
      threshold_notice_rendered (s\<lparr>result := Some r\<rparr>))"
  by (auto simp: ScoreRing_color_def scoreColor_def rating_badge_def
      certificate_button_rendered_def threshold_notice_rendered_def)

theorem rating_breakpoints_witness:
  "(600 \<le> keycred_score good_unapproved_result \<and>
    keycred_score good_unapproved_result < 650 \<and>
    \<not> truthy (is_approved good_unapproved_result) \<and>
    ScoreRing_color (keycred_score good_unapproved_result) = ''#fbbf24'' \<and>
    scoreColor (showing good_unapproved_result) = ''#fbbf24'' \<and>
    rating_badge good_unapproved_result = ''Good Creditworthiness'' \<and>
    \<not> certificate_button_rendered (showing good_unapproved_result) \<and>
    threshold_notice_rendered (showing good_unapproved_result)) \<and>
   (keycred_score approved_result \<ge> 750 \<and>
    ScoreRing_color (keycred_score approved_result) = ''#34d399'' \<and>
    scoreColor (showing approved_result) = ''#34d399'' \<and>
    rating_badge approved_result = ''Excellent Creditworthiness'') \<and>
   (keycred_score low_result < 600 \<and>
    ScoreRing_color (keycred_score low_result) = ''#f87171'' \<and>
    scoreColor (showing low_result) = ''#f87171'' \<and>
    rating_badge low_result = ''Needs Improvement'')"
proof (intro conjI)
  note good = rating_breakpoints
    [of good_unapproved_result "initial_state\<lparr>file_state := Some pdf_file\<rparr>"]
  note top = rating_breakpoints
    [of approved_result "initial_state\<lparr>file_state := Some pdf_file\<rparr>"]
  note low = rating_breakpoints
    [of low_result "initial_state\<lparr>file_state := Some pdf_file\<rparr>"]
  have g: "600 \<le> keycred_score good_unapproved_result"
    "keycred_score good_unapproved_result < 650"
    "\<not> truthy (is_approved good_unapproved_result)"
    by (simp_all add: good_unapproved_result_def truthy_def)
  show "600 \<le> keycred_score good_unapproved_result"
    "keycred_score good_unapproved_result < 650"
    "\<not> truthy (is_approved good_unapproved_result)"
    by (rule g)+
  show "ScoreRing_color (keycred_score good_unapproved_result) = ''#fbbf24''"
    "scoreColor (showing good_unapproved_result) = ''#fbbf24''"
    "rating_badge good_unapproved_result = ''Good Creditworthiness''"
    "\<not> certificate_button_rendered (showing good_unapproved_result)"
    "threshold_notice_rendered (showing good_unapproved_result)"
    using good g by (simp_all add: showing_def)
  have t: "keycred_score approved_result \<ge> 750"
    by (simp add: approved_result_def)
  show "keycred_score approved_result \<ge> 750" by (rule t)
  show "ScoreRing_color (keycred_score approved_result) = ''#34d399''"
    "scoreColor (showing approved_result) = ''#34d399''"
    "rating_badge approved_result = ''Excellent Creditworthiness''"
    using top t by (simp_all add: showing_def)
  have l: "keycred_score low_result < 600"
    by (simp add: low_result_def)
  show "keycred_score low_result < 600" by (rule l)
  show "ScoreRing_color (keycred_score low_result) = ''#f87171''"
    "scoreColor (showing low_result) = ''#f87171''"
    "rating_badge low_result = ''Needs Improvement''"
    using low l by (simp_all add: showing_def)
qed

section \<open>Properties of the pipeline\<close>

lemma clamp_bounds: "lo \<le> hi \<Longrightarrow> lo \<le> clamp x lo hi \<and> clamp x lo hi \<le> hi"
  by (simp add: clamp_def)

lemma RuleBasedScorer_range: "0 \<le> RuleBasedScorer st feats \<and> RuleBasedScorer st feats \<le> 1000"
  by (simp add: RuleBasedScorer_def clamp_bounds)

lemma DocumentExtractor_fails_iff:
  "DocumentExtractor st doc = Inl UnreadableDocument \<longleftrightarrow>
     parse_pdf st (doc_bytes doc) = None \<or> parse_pdf st (doc_bytes doc) = Some []"
  by (simp add: DocumentExtractor_def split: option.splits list.splits)

lemma DocumentExtractor_pages:
  "DocumentExtractor st doc = Inr pages \<longleftrightarrow>
     parse_pdf st (doc_bytes doc) = Some pages \<and> pages \<noteq> []"
  by (auto simp: DocumentExtractor_def split: option.splits list.splits)

lemma pipeline_failed:
  "DocumentExtractor st doc = Inl UnreadableDocument \<Longrightarrow>
   pipeline st doc tenant receipt =
     \<lparr>dr_tenant_id = tenant, dr_receipt_id = receipt, dr_score = 0,
      dr_max_rent_limit = 0, dr_pages_parsed = 0, dr_is_approved = False,
      dr_status = failed\<rparr>"
  by (simp add: pipeline_def)

lemma pipeline_completed:
  "DocumentExtractor st doc = Inr pages \<Longrightarrow>
   pipeline st doc tenant receipt =
     \<lparr>dr_tenant_id = tenant, dr_receipt_id = receipt,
      dr_score = RuleBasedScorer st (extract_features st pages),
      dr_max_rent_limit =
        rent_limit st (RuleBasedScorer st (extract_features st pages))
          (extract_features st pages),
      dr_pages_parsed = length pages,
      dr_is_approved =
        EligibilityGate completed (RuleBasedScorer st (extract_features st pages)),
      dr_status = completed\<rparr>"
  by (simp add: pipeline_def Let_def)

text \<open>The two sample documents, run through the sample stages.\<close>

lemma pipeline_samples:
  "pipeline sample_stages corrupt_document (1::nat) (7::nat) =
     \<lparr>dr_tenant_id = 1, dr_receipt_id = 7, dr_score = 0, dr_max_rent_limit = 0,
      dr_pages_parsed = 0, dr_is_approved = False, dr_status = failed\<rparr> \<and>
   pipeline sample_stages readable_document (1::nat) (8::nat) =
     \<lparr>dr_tenant_id = 1, dr_receipt_id = 8, dr_score = 700, dr_max_rent_limit = 7000,
      dr_pages_parsed = 1, dr_is_approved = True, dr_status = completed\<rparr>"
  by (simp add: pipeline_def DocumentExtractor_def sample_stages_def corrupt_document_def
      readable_document_def RuleBasedScorer_def ScoreBreakdown_def clamp_def
      EligibilityGate_def APPROVAL_THRESHOLD_def)

text \<open>
  Claim C1: in every DecisionRecord the pipeline produces, whatever the document and
  whatever the parser, the feature extractor and the rules, \<open>is_approved\<close> is true if
  and only if the status is \<open>completed\<close> and the score is at least 650, the
  \<open>APPROVAL_THRESHOLD\<close>.
\<close>

theorem is_approved_iff:
  "(dr_is_approved (pipeline st doc tenant receipt) \<longleftrightarrow>
      dr_status (pipeline st doc tenant receipt) = completed \<and>
      dr_score (pipeline st doc tenant receipt) \<ge> 650) \<and>
   APPROVAL_THRESHOLD = 650"
proof (cases "DocumentExtractor st doc")
  case (Inl e)
  then have "DocumentExtractor st doc = Inl UnreadableDocument"
    by (cases e) simp
  then show ?thesis
    by (simp add: pipeline_failed APPROVAL_THRESHOLD_def)
next
  case (Inr pages)
  then show ?thesis
    by (simp add: pipeline_completed EligibilityGate_def APPROVAL_THRESHOLD_def)
qed

text \<open>
  Claim C3: the Document Extractor fails with \<open>UnreadableDocument\<close> exactly on the inputs
  whose bytes are not a parseable PDF (the parser gives up, or finds zero pages). On
  such an input the pipeline returns the record with status \<open>failed\<close>, score 0, rent
  limit 0, \<open>is_approved\<close> false and 0 pages parsed, and no later stage has a say in it:
  the record is the same whatever the feature extractor, the baseline, the rules and
  the Rent-Limit Calculator are. It is the only fatal path: the status is \<open>failed\<close> only when the
  Document Extractor failed.
\<close>

theorem unreadable_document_short_circuits:
  "(DocumentExtractor st doc = Inl UnreadableDocument \<longleftrightarrow>
      parse_pdf st (doc_bytes doc) = None \<or> parse_pdf st (doc_bytes doc) = Some []) \<and>
   (DocumentExtractor st doc = Inl UnreadableDocument \<longrightarrow>
      pipeline st doc tenant receipt =
        \<lparr>dr_tenant_id = tenant, dr_receipt_id = receipt, dr_score = 0,
         dr_max_rent_limit = 0, dr_pages_parsed = 0, dr_is_approved = False,
         dr_status = failed\<rparr> \<and>
      pipeline (st\<lparr>extract_features := fe, baseline := b, rules := rs, rent_limit := rf\<rparr>)
        doc tenant receipt = pipeline st doc tenant receipt) \<and>
   (dr_status (pipeline st doc tenant receipt) = failed \<longleftrightarrow>
      DocumentExtractor st doc = Inl UnreadableDocument)"
proof (intro conjI impI)
  show "DocumentExtractor st doc = Inl UnreadableDocument \<longleftrightarrow>
      parse_pdf st (doc_bytes doc) = None \<or> parse_pdf st (doc_bytes doc) = Some []"
    by (rule DocumentExtractor_fails_iff)
next
  assume f: "DocumentExtractor st doc = Inl UnreadableDocument"
  then show "pipeline st doc tenant receipt =
        \<lparr>dr_tenant_id = tenant, dr_receipt_id = receipt, dr_score = 0,
         dr_max_rent_limit = 0, dr_pages_parsed = 0, dr_is_approved = False,
         dr_status = failed\<rparr>"
    by (rule pipeline_failed)
  have "DocumentExtractor
      (st\<lparr>extract_features := fe, baseline := b, rules := rs, rent_limit := rf\<rparr>) doc =
      Inl UnreadableDocument"
    using f by (simp add: DocumentExtractor_def)
  then show "pipeline
      (st\<lparr>extract_features := fe, baseline := b, rules := rs, rent_limit := rf\<rparr>)
      doc tenant receipt = pipeline st doc tenant receipt"
    using f by (simp add: pipeline_failed)
next
  show "dr_status (pipeline st doc tenant receipt) = failed \<longleftrightarrow>
      DocumentExtractor st doc = Inl UnreadableDocument"
  proof (cases "DocumentExtractor st doc")
    case (Inl e)
    then have "DocumentExtractor st doc = Inl UnreadableDocument"
      by (cases e) simp
    then show ?thesis by (simp add: pipeline_failed)
  next
    case (Inr pages)
    then show ?thesis by (simp add: pipeline_completed)
  qed
qed

theorem unreadable_document_short_circuits_witness:
  "DocumentExtractor sample_stages corrupt_document = Inl UnreadableDocument \<and>
   pipeline sample_stages corrupt_document (1::nat) (7::nat) =
     \<lparr>dr_tenant_id = 1, dr_receipt_id = 7, dr_score = 0, dr_max_rent_limit = 0,
      dr_pages_parsed = 0, dr_is_approved = False, dr_status = failed\<rparr> \<and>
   pipeline
     (sample_stages\<lparr>extract_features := \<lambda>pages. 0, baseline := 900, rules := [],
        rent_limit := \<lambda>score n. 1\<rparr>)
     corrupt_document (1::nat) (7::nat) =
     pipeline sample_stages corrupt_document 1 7 \<and>
   dr_status (pipeline sample_stages corrupt_document (1::nat) (7::nat)) = failed"
proof -
  have f: "DocumentExtractor sample_stages corrupt_document = Inl UnreadableDocument"
    by (simp add: DocumentExtractor_def sample_stages_def corrupt_document_def)
  show ?thesis
    using f unreadable_document_short_circuits
      [where st = sample_stages and doc = corrupt_document and tenant = "1::nat"
        and receipt = "7::nat" and fe = "\<lambda>pages. 0" and b = 900 and rs = "[]"
        and rf = "\<lambda>score n. 1"]
    by simp
qed

end
